theory Spec2Isabelle
  imports Complex_Main
begin

section \<open>Data model (types.ts)\<close>

text \<open>
  JavaScript strings are modelled as \<open>string\<close>, one \<open>char\<close> per code unit (code units
  below 256 only). Counts (\<open>population\<close>, \<open>activeCases\<close>, \<open>affectedCount\<close>) are
  \<open>number\<close> in the source and \<open>int\<close> here. A coordinate is a \<open>number\<close> that may be
  \<open>NaN\<close> or infinite once it comes out of \<open>parseFloat\<close>; it is modelled as \<open>jsnum\<close>,
  whose finite values are exact rationals: rounding to the nearest double is not
  modelled, nor is the sign of zero.
\<close>

datatype HealthStatus = GREEN | YELLOW | RED

datatype jsnum = NaN | PosInf | NegInf | Fin rat

record Coordinates =
  lat :: jsnum
  lng :: jsnum

record Comment =
  id_c :: string
  author :: string
  text_c :: string
  timestamp_c :: string

record AIAnalysisResult =
  riskLevel :: HealthStatus
  reasoning :: string
  recommendedActions :: "string list"
  predictedOutbreakChance :: rat
  possibleDiagnosis :: string

record Village =
  id_v :: string
  name :: string
  district :: string
  coordinates :: Coordinates
  population :: int
  activeCases :: int
  status :: HealthStatus
  lastReported :: string
  lastAshaWorker :: "string option"
  dominantSymptoms :: "string list"
  comments :: "Comment list"
  lastAnalysis :: "AIAnalysisResult option"

datatype Sanitation = Good | Ok | Worst

record CaseReport =
  id_r :: string
  villageId :: string
  workerName :: string
  workerLocation :: string
  sanitationStatus :: Sanitation
  diseaseType :: string
  symptoms :: string
  affectedCount :: int
  timestamp :: string
  notes_r :: string

record OutbreakCluster =
  id_k :: string
  villageIds :: "string list"
  center :: Coordinates
  radius :: rat
  severity :: HealthStatus
  aiAdvice :: string

section \<open>Built-ins of the language used by the handlers\<close>

text \<open>\<open>String.prototype.split\<close> with a one-character separator: never empty.\<close>

fun split_on :: "char \<Rightarrow> string \<Rightarrow> string list" where
  "split_on sep [] = [[]]"
| "split_on sep (c # cs) =
     (if c = sep then [] # split_on sep cs
      else (case split_on sep cs of [] \<Rightarrow> [[c]] | p # ps \<Rightarrow> (c # p) # ps))"

text \<open>White space and line terminators with a code unit below 256.\<close>

definition isSpace :: "char \<Rightarrow> bool" where
  "isSpace c \<longleftrightarrow> c \<in> set [CHR 0x09, CHR 0x0A, CHR 0x0B, CHR 0x0C, CHR 0x0D, CHR 0x20, CHR 0xA0]"

definition trim :: "string \<Rightarrow> string" where
  "trim s = rev (dropWhile isSpace (rev (dropWhile isSpace s)))"

text \<open>
  \<open>new Set(xs)\<close> read back as an array: elements in the order of their first occurrence.
  \<open>setAdd\<close> is \<open>Set.prototype.add\<close> on the insertion-ordered contents.
\<close>

definition setAdd :: "'a list \<Rightarrow> 'a \<Rightarrow> 'a list" where
  "setAdd acc x = (if x \<in> set acc then acc else acc @ [x])"

definition arrayFromSet :: "'a list \<Rightarrow> 'a list" where
  "arrayFromSet xs = foldl setAdd [] xs"

text \<open>
  \<open>parseFloat\<close>: skip leading white space, read the longest prefix that is a
  StrDecimalLiteral (sign, then \<open>Infinity\<close> or digits with an optional fraction and an
  optional exponent), \<open>NaN\<close> when there is none.
\<close>

definition isDigit :: "char \<Rightarrow> bool" where
  "isDigit c \<longleftrightarrow> c \<in> set ''0123456789''"

definition digitVal :: "char \<Rightarrow> nat" where
  "digitVal c = of_char c - 48"

definition digitsVal :: "string \<Rightarrow> nat" where
  "digitsVal ds = foldl (\<lambda>a c. 10 * a + digitVal c) 0 ds"

definition parseExponent :: "string \<Rightarrow> int" where
  "parseExponent s =
     (case s of
        [] \<Rightarrow> 0
      | e # rest \<Rightarrow>
          if e = CHR ''e'' \<or> e = CHR ''E'' then
            (let neg = (case rest of [] \<Rightarrow> False | c # _ \<Rightarrow> c = CHR ''-'');
                 signed = (case rest of [] \<Rightarrow> False | c # _ \<Rightarrow> c = CHR ''-'' \<or> c = CHR ''+'');
                 ds = takeWhile isDigit (if signed then tl rest else rest)
             in if ds = [] then 0
                else if neg then - int (digitsVal ds) else int (digitsVal ds))
          else 0)"

definition scale10 :: "nat \<Rightarrow> int \<Rightarrow> rat" where
  "scale10 m e = (if 0 \<le> e then of_nat m * 10 ^ nat e else of_nat m / 10 ^ nat (- e))"

definition parseUnsigned :: "string \<Rightarrow> jsnum" where
  "parseUnsigned s =
     (if take 8 s = ''Infinity'' then PosInf
      else
        (let ip = takeWhile isDigit s; r1 = dropWhile isDigit s
         in case r1 of
              [] \<Rightarrow> if ip = [] then NaN else Fin (of_nat (digitsVal ip))
            | c # r \<Rightarrow>
                if c = CHR ''.'' then
                  (let fp = takeWhile isDigit r; r2 = dropWhile isDigit r
                   in if ip = [] \<and> fp = [] then NaN
                      else Fin (scale10 (digitsVal (ip @ fp)) (parseExponent r2 - int (length fp))))
                else if ip = [] then NaN
                else Fin (scale10 (digitsVal ip) (parseExponent r1))))"

definition jsNeg :: "jsnum \<Rightarrow> jsnum" where
  "jsNeg x = (case x of NaN \<Rightarrow> NaN | PosInf \<Rightarrow> NegInf | NegInf \<Rightarrow> PosInf | Fin q \<Rightarrow> Fin (- q))"

definition parseFloat :: "string \<Rightarrow> jsnum" where
  "parseFloat s =
     (case dropWhile isSpace s of
        [] \<Rightarrow> NaN
      | c # r \<Rightarrow>
          if c = CHR ''-'' then jsNeg (parseUnsigned r)
          else if c = CHR ''+'' then parseUnsigned r
          else parseUnsigned (c # r))"

definition isNaN :: "jsnum \<Rightarrow> bool" where
  "isNaN x \<longleftrightarrow> x = NaN"

section \<open>The risk oracle (services/geminiService.ts, analyzeVillageHealth)\<close>

text \<open>
  The call \<open>ai.models.generateContent\<close> leaves the program: it either rejects or
  answers with a response whose \<open>text\<close> may be undefined. It is a parameter here, as is
  \<open>JSON.parse\<close> on the answer (\<open>None\<close> when it throws).
\<close>

datatype gen_result = Rejected | Response "string option"

definition fallbackAnalysis :: AIAnalysisResult where
  "fallbackAnalysis =
     \<lparr> riskLevel = YELLOW,
       reasoning = ''AI Analysis unavailable. Defaulting to moderate caution due to new report.'',
       recommendedActions =
         [''Monitor situation closely'', ''Dispatch field team for manual verification''],
       predictedOutbreakChance = 50,
       possibleDiagnosis = ''Analysis Failed - Refer to Doctor'' \<rparr>"

definition analyzeVillageHealth ::
  "(Village \<Rightarrow> CaseReport \<Rightarrow> gen_result) \<Rightarrow> (string \<Rightarrow> AIAnalysisResult option)
     \<Rightarrow> Village \<Rightarrow> CaseReport \<Rightarrow> AIAnalysisResult" where
  "analyzeVillageHealth generateContent jsonParse village newReport =
     (case generateContent village newReport of
        Rejected \<Rightarrow> fallbackAnalysis
      | Response None \<Rightarrow> fallbackAnalysis
      | Response (Some txt) \<Rightarrow>
          if txt = [] then fallbackAnalysis
          else (case jsonParse txt of None \<Rightarrow> fallbackAnalysis | Some a \<Rightarrow> a))"

text \<open>The oracle call fails: a rejection, no text, or text that does not parse.\<close>

definition oracleFails ::
  "(Village \<Rightarrow> CaseReport \<Rightarrow> gen_result) \<Rightarrow> (string \<Rightarrow> AIAnalysisResult option)
     \<Rightarrow> Village \<Rightarrow> CaseReport \<Rightarrow> bool" where
  "oracleFails generateContent jsonParse village newReport =
     (case generateContent village newReport of
        Rejected \<Rightarrow> True
      | Response None \<Rightarrow> True
      | Response (Some txt) \<Rightarrow> txt = [] \<or> jsonParse txt = None)"

section \<open>Report ingestion (App.tsx, handleReportSubmit)\<close>

definition defaultCoords :: Coordinates where
  "defaultCoords = \<lparr> lat = Fin (205937 / 10000), lng = Fin (789629 / 10000) \<rparr>"

text \<open>The coordinates of a village that is not yet known, from the reporter's location.\<close>

definition parseCoords :: "string \<Rightarrow> Coordinates" where
  "parseCoords loc =
     (if loc \<noteq> [] \<and> CHR '','' \<in> set loc then
        (case map (\<lambda>s. parseFloat (trim s)) (split_on CHR '','' loc) of
           x # y # _ \<Rightarrow>
             if \<not> isNaN x \<and> \<not> isNaN y then \<lparr> lat = x, lng = y \<rparr> else defaultCoords
         | _ \<Rightarrow> defaultCoords)
      else defaultCoords)"

definition newVillage :: "string \<Rightarrow> CaseReport \<Rightarrow> string \<Rightarrow> Village" where
  "newVillage now report villageName =
     \<lparr> id_v = villageId report,
       name = villageName,
       district = ''Detected via GPS'',
       coordinates = parseCoords (workerLocation report),
       population = 1000,
       activeCases = 0,
       status = GREEN,
       lastReported = now,
       lastAshaWorker = None,
       dominantSymptoms = [],
       comments = [],
       lastAnalysis = None \<rparr>"

text \<open>\<open>report.symptoms.split(',')[0] || 'Unknown'\<close>: the empty string is falsy.\<close>

definition firstSymptom :: "string \<Rightarrow> string" where
  "firstSymptom s =
     (case split_on CHR '','' s of
        [] \<Rightarrow> ''Unknown''
      | t # _ \<Rightarrow> if t = [] then ''Unknown'' else t)"

definition updatedVillage :: "string \<Rightarrow> Village \<Rightarrow> CaseReport \<Rightarrow> AIAnalysisResult \<Rightarrow> Village" where
  "updatedVillage now village report analysis =
     village
       \<lparr> activeCases := activeCases village + affectedCount report,
         status := riskLevel analysis,
         lastReported := now,
         lastAshaWorker := Some (workerName report),
         dominantSymptoms :=
           arrayFromSet (dominantSymptoms village @ [firstSymptom (symptoms report)]),
         comments := comments village,
         lastAnalysis := Some analysis \<rparr>"

text \<open>\<open>villages.find(v => v.id === id)\<close>: the first village with that id.\<close>

definition findVillage :: "string \<Rightarrow> Village list \<Rightarrow> Village option" where
  "findVillage vid villages = find (\<lambda>v. id_v v = vid) villages"

text \<open>The village a report is applied to: the one found, or the one made for it.\<close>

definition targetVillage :: "string \<Rightarrow> CaseReport \<Rightarrow> string \<Rightarrow> Village list \<Rightarrow> Village" where
  "targetVillage now report villageName villages =
     (case findVillage (villageId report) villages of
        Some v \<Rightarrow> v
      | None \<Rightarrow> newVillage now report villageName)"

text \<open>
  The handler, as a function from the village list to the next village list. \<open>now0\<close> and
  \<open>now1\<close> are the two readings of the clock; the state of the user interface is left
  out, and the list handed to the state updater is the list the handler searched (one
  writer at a time).
\<close>

definition handleReportSubmit ::
  "(Village \<Rightarrow> CaseReport \<Rightarrow> gen_result) \<Rightarrow> (string \<Rightarrow> AIAnalysisResult option)
     \<Rightarrow> string \<Rightarrow> string \<Rightarrow> CaseReport \<Rightarrow> string \<Rightarrow> Village list \<Rightarrow> Village list" where
  "handleReportSubmit generateContent jsonParse now0 now1 report villageName villages =
     (let isNewVillage = (findVillage (villageId report) villages = None);
          village = targetVillage now0 report villageName villages;
          analysis = analyzeVillageHealth generateContent jsonParse village report;
          upd = updatedVillage now1 village report analysis
      in if isNewVillage then villages @ [upd]
         else map (\<lambda>v. if id_v v = id_v upd then upd else v) villages)"

subsection \<open>Earlier revisions of the handler kept in the repository\<close>

text \<open>
  The revision in \<open>unnamed/part_003\<close> differs from \<open>App.tsx\<close> in one field: it keeps the
  analysis in the state of the user interface and does not store it in the village.
\<close>

definition updatedVillage_part003 ::
  "string \<Rightarrow> Village \<Rightarrow> CaseReport \<Rightarrow> AIAnalysisResult \<Rightarrow> Village" where
  "updatedVillage_part003 now village report analysis =
     village
       \<lparr> activeCases := activeCases village + affectedCount report,
         status := riskLevel analysis,
         lastReported := now,
         lastAshaWorker := Some (workerName report),
         dominantSymptoms :=
           arrayFromSet (dominantSymptoms village @ [firstSymptom (symptoms report)]),
         comments := comments village \<rparr>"

definition handleReportSubmit_part003 ::
  "(Village \<Rightarrow> CaseReport \<Rightarrow> gen_result) \<Rightarrow> (string \<Rightarrow> AIAnalysisResult option)
     \<Rightarrow> string \<Rightarrow> string \<Rightarrow> CaseReport \<Rightarrow> string \<Rightarrow> Village list \<Rightarrow> Village list" where
  "handleReportSubmit_part003 generateContent jsonParse now0 now1 report villageName villages =
     (let isNewVillage = (findVillage (villageId report) villages = None);
          village = targetVillage now0 report villageName villages;
          analysis = analyzeVillageHealth generateContent jsonParse village report;
          upd = updatedVillage_part003 now1 village report analysis
      in if isNewVillage then villages @ [upd]
         else map (\<lambda>v. if id_v v = id_v upd then upd else v) villages)"

text \<open>
  The revision in \<open>unnamed/part_002\<close> knows no new villages (an unknown id changes
  nothing), merges every trimmed token of the report's symptoms, keeps the first three
  entries, and writes the village back at the index where it was found.
\<close>

fun findIndex :: "('a \<Rightarrow> bool) \<Rightarrow> 'a list \<Rightarrow> nat option" where
  "findIndex P [] = None"
| "findIndex P (x # xs) =
     (if P x then Some 0 else (case findIndex P xs of None \<Rightarrow> None | Some i \<Rightarrow> Some (Suc i)))"

definition updatedVillage_part002 ::
  "string \<Rightarrow> Village \<Rightarrow> CaseReport \<Rightarrow> AIAnalysisResult \<Rightarrow> Village" where
  "updatedVillage_part002 now currentVillage report analysis =
     currentVillage
       \<lparr> activeCases := activeCases currentVillage + affectedCount report,
         status := riskLevel analysis,
         lastReported := now,
         lastAshaWorker := Some (workerName report),
         dominantSymptoms :=
           take 3 (arrayFromSet (dominantSymptoms currentVillage
                      @ map trim (split_on CHR '','' (symptoms report)))) \<rparr>"

definition handleReportSubmit_part002 ::
  "(Village \<Rightarrow> CaseReport \<Rightarrow> gen_result) \<Rightarrow> (string \<Rightarrow> AIAnalysisResult option)
     \<Rightarrow> string \<Rightarrow> CaseReport \<Rightarrow> Village list \<Rightarrow> Village list" where
  "handleReportSubmit_part002 generateContent jsonParse now report villages =
     (case findIndex (\<lambda>v. id_v v = villageId report) villages of
        None \<Rightarrow> villages
      | Some targetVillageIndex \<Rightarrow>
          (let currentVillage = villages ! targetVillageIndex;
               analysis = analyzeVillageHealth generateContent jsonParse currentVillage report
           in villages[targetVillageIndex :=
                         updatedVillage_part002 now currentVillage report analysis]))"

section \<open>Comments (App.tsx, handleAddComment)\<close>

text \<open>
  \<open>commentText\<close> is the text typed by the user; \<open>uuid\<close> and \<open>now\<close> are the values of
  \<open>crypto.randomUUID()\<close> and of the clock.
\<close>

definition handleAddComment ::
  "string \<Rightarrow> string \<Rightarrow> string \<Rightarrow> string \<Rightarrow> Village list \<Rightarrow> Village list" where
  "handleAddComment commentText uuid now vid villages =
     (if trim commentText = [] then villages
      else
        (let newComment =
               \<lparr> id_c = uuid, author = ''Public User'', text_c = commentText, timestamp_c = now \<rparr>
         in map (\<lambda>v. if id_v v = vid then v\<lparr>comments := newComment # comments v\<rparr> else v)
              villages))"

section \<open>Cluster detection (services/geminiService.ts, analyzeClusters)\<close>

text \<open>
  Arithmetic and comparison of \<open>number\<close> on \<open>jsnum\<close>: \<open>NaN\<close> is contagious and compares
  false with everything.
\<close>

fun jsAdd :: "jsnum \<Rightarrow> jsnum \<Rightarrow> jsnum" where
  "jsAdd NaN _ = NaN"
| "jsAdd _ NaN = NaN"
| "jsAdd PosInf NegInf = NaN"
| "jsAdd NegInf PosInf = NaN"
| "jsAdd PosInf _ = PosInf"
| "jsAdd _ PosInf = PosInf"
| "jsAdd NegInf _ = NegInf"
| "jsAdd _ NegInf = NegInf"
| "jsAdd (Fin a) (Fin b) = Fin (a + b)"

fun jsDivNat :: "jsnum \<Rightarrow> nat \<Rightarrow> jsnum" where
  "jsDivNat NaN _ = NaN"
| "jsDivNat PosInf _ = PosInf"
| "jsDivNat NegInf _ = NegInf"
| "jsDivNat (Fin a) n =
     (if n = 0 then (if a = 0 then NaN else if 0 < a then PosInf else NegInf)
      else Fin (a / of_nat n))"

fun jsLe :: "jsnum \<Rightarrow> jsnum \<Rightarrow> bool" where
  "jsLe NaN _ = False"
| "jsLe _ NaN = False"
| "jsLe NegInf _ = True"
| "jsLe _ PosInf = True"
| "jsLe PosInf _ = False"
| "jsLe _ NegInf = False"
| "jsLe (Fin a) (Fin b) = (a \<le> b)"

definition DISTANCE_THRESHOLD :: rat where
  "DISTANCE_THRESHOLD = 15000"

text \<open>Decimal digits of a number, for the template string of the cluster id.\<close>

fun showNat :: "nat \<Rightarrow> string" where
  "showNat n =
     (if n < 10 then [char_of (48 + n)]
      else showNat (n div 10) @ [char_of (48 + n mod 10)])"

declare showNat.simps [simp del]

text \<open>
  The inner loop over the villages after the anchor \<open>v1\<close>: a village not yet processed
  joins the cluster when its distance to the anchor is at most the threshold.
  \<open>getDistance\<close> is the haversine distance of the source, computed there in floating
  point with trigonometric functions; it is a parameter here, and so is the request to
  the model for advice (\<open>advise\<close>) and the clock in milliseconds at the anchor with
  index \<open>i\<close> (\<open>nowMs\<close>).
\<close>

fun findNeighbours ::
  "(Coordinates \<Rightarrow> Coordinates \<Rightarrow> jsnum) \<Rightarrow> Village \<Rightarrow> Village list
     \<Rightarrow> Village list \<times> string set \<Rightarrow> Village list \<times> string set" where
  "findNeighbours getDistance v1 [] (currentCluster, processed) = (currentCluster, processed)"
| "findNeighbours getDistance v1 (v2 # rest) (currentCluster, processed) =
     (if id_v v2 \<in> processed then findNeighbours getDistance v1 rest (currentCluster, processed)
      else if jsLe (getDistance (coordinates v1) (coordinates v2)) (Fin DISTANCE_THRESHOLD)
      then findNeighbours getDistance v1 rest (currentCluster @ [v2], insert (id_v v2) processed)
      else findNeighbours getDistance v1 rest (currentCluster, processed))"

definition clusterSeverity :: "Village list \<Rightarrow> HealthStatus" where
  "clusterSeverity currentCluster =
     (if list_ex (\<lambda>v. status v = RED) currentCluster then RED else YELLOW)"

definition clusterAdvice ::
  "(Village list \<Rightarrow> HealthStatus \<Rightarrow> gen_result) \<Rightarrow> Village list \<Rightarrow> HealthStatus \<Rightarrow> string" where
  "clusterAdvice advise currentCluster sev =
     (case advise currentCluster sev of
        Rejected \<Rightarrow> ''Cluster detected. Coordinate resources.''
      | Response None \<Rightarrow> ''Cluster detected. Coordinate resources.''
      | Response (Some txt) \<Rightarrow>
          if txt = [] then ''Cluster detected. Coordinate resources.'' else txt)"

definition makeCluster ::
  "(Village list \<Rightarrow> HealthStatus \<Rightarrow> gen_result) \<Rightarrow> (nat \<Rightarrow> nat) \<Rightarrow> nat \<Rightarrow> Village list
     \<Rightarrow> OutbreakCluster" where
  "makeCluster advise nowMs i currentCluster =
     (let latSum = foldl (\<lambda>s v. jsAdd s (lat (coordinates v))) (Fin 0) currentCluster;
          lngSum = foldl (\<lambda>s v. jsAdd s (lng (coordinates v))) (Fin 0) currentCluster;
          sev = clusterSeverity currentCluster
      in \<lparr> id_k = ''cluster-'' @ showNat (nowMs i) @ ''-'' @ showNat i,
           villageIds = map id_v currentCluster,
           center = \<lparr> lat = jsDivNat latSum (length currentCluster),
                      lng = jsDivNat lngSum (length currentCluster) \<rparr>,
           radius = DISTANCE_THRESHOLD / 2,
           severity = sev,
           aiAdvice = clusterAdvice advise currentCluster sev \<rparr>)"

text \<open>The outer loop: \<open>i\<close> is the index of the head of the list in \<open>unsafeVillages\<close>.\<close>

fun clusterLoop ::
  "(Coordinates \<Rightarrow> Coordinates \<Rightarrow> jsnum) \<Rightarrow> (Village list \<Rightarrow> HealthStatus \<Rightarrow> gen_result)
     \<Rightarrow> (nat \<Rightarrow> nat) \<Rightarrow> nat \<Rightarrow> Village list \<Rightarrow> string set \<Rightarrow> OutbreakCluster list
     \<Rightarrow> OutbreakCluster list" where
  "clusterLoop getDistance advise nowMs i [] processed clusters = clusters"
| "clusterLoop getDistance advise nowMs i (v1 # rest) processed clusters =
     (if id_v v1 \<in> processed
      then clusterLoop getDistance advise nowMs (Suc i) rest processed clusters
      else
        (case findNeighbours getDistance v1 rest ([v1], insert (id_v v1) processed) of
           (currentCluster, processed') \<Rightarrow>
             clusterLoop getDistance advise nowMs (Suc i) rest processed'
               (if 2 \<le> length currentCluster
                then clusters @ [makeCluster advise nowMs i currentCluster]
                else clusters)))"

definition analyzeClusters ::
  "(Coordinates \<Rightarrow> Coordinates \<Rightarrow> jsnum) \<Rightarrow> (Village list \<Rightarrow> HealthStatus \<Rightarrow> gen_result)
     \<Rightarrow> (nat \<Rightarrow> nat) \<Rightarrow> Village list \<Rightarrow> OutbreakCluster list" where
  "analyzeClusters getDistance advise nowMs villages =
     clusterLoop getDistance advise nowMs 0 (filter (\<lambda>v. status v \<noteq> GREEN) villages) {} []"

section \<open>Seed data (constants.ts)\<close>

text \<open>The three arguments are the clock now, one day ago and two days ago.\<close>

definition INITIAL_VILLAGES :: "string \<Rightarrow> string \<Rightarrow> string \<Rightarrow> Village list" where
  "INITIAL_VILLAGES now dayAgo twoDaysAgo =
     [ \<lparr> id_v = ''v1'', name = ''Pedana'', district = ''Krishna'',
         coordinates = \<lparr> lat = Fin (162556 / 10000), lng = Fin (811667 / 10000) \<rparr>,
         population = 3100, activeCases = 2, status = GREEN, lastReported = now,
         lastAshaWorker = None, dominantSymptoms = [''Mild Fever''], comments = [],
         lastAnalysis = None \<rparr>,
       \<lparr> id_v = ''v2'', name = ''Bobbili'', district = ''Vizianagaram'',
         coordinates = \<lparr> lat = Fin (185667 / 10000), lng = Fin (833667 / 10000) \<rparr>,
         population = 5400, activeCases = 15, status = YELLOW, lastReported = dayAgo,
         lastAshaWorker = None, dominantSymptoms = [''Fever'', ''Body Pain''], comments = [],
         lastAnalysis = None \<rparr>,
       \<lparr> id_v = ''v3'', name = ''Cheepurupalli'', district = ''Vizianagaram'',
         coordinates = \<lparr> lat = Fin (183000 / 10000), lng = Fin (835667 / 10000) \<rparr>,
         population = 4200, activeCases = 45, status = RED, lastReported = now,
         lastAshaWorker = None, dominantSymptoms = [''High Fever'', ''Vomiting'', ''Rash''],
         comments = [], lastAnalysis = None \<rparr>,
       \<lparr> id_v = ''v4'', name = ''Salur'', district = ''Vizianagaram'',
         coordinates = \<lparr> lat = Fin (185333 / 10000), lng = Fin (832167 / 10000) \<rparr>,
         population = 3800, activeCases = 5, status = GREEN, lastReported = twoDaysAgo,
         lastAshaWorker = None, dominantSymptoms = [], comments = [],
         lastAnalysis = None \<rparr>,
       \<lparr> id_v = ''v5'', name = ''Gajapathinagaram'', district = ''Vizianagaram'',
         coordinates = \<lparr> lat = Fin (182833 / 10000), lng = Fin (833333 / 10000) \<rparr>,
         population = 2900, activeCases = 8, status = YELLOW, lastReported = now,
         lastAshaWorker = None, dominantSymptoms = [''Cough'', ''Fever''], comments = [],
         lastAnalysis = None \<rparr> ]"

section \<open>Deterministic stand-ins for the outside world\<close>

text \<open>An oracle that is down, one that answers, and a report to feed them.\<close>

definition oracleDown :: "Village \<Rightarrow> CaseReport \<Rightarrow> gen_result" where
  "oracleDown village newReport = Rejected"

definition parseNothing :: "string \<Rightarrow> AIAnalysisResult option" where
  "parseNothing txt = None"

definition redAnalysis :: AIAnalysisResult where
  "redAnalysis =
     \<lparr> riskLevel = RED, reasoning = ''Many cases and blocked drains.'',
       recommendedActions = [''Send a medical team''],
       predictedOutbreakChance = 80, possibleDiagnosis = ''Likely Dengue'' \<rparr>"

definition oracleUp :: "Village \<Rightarrow> CaseReport \<Rightarrow> gen_result" where
  "oracleUp village newReport = Response (Some ''{...}'')"

definition parseRed :: "string \<Rightarrow> AIAnalysisResult option" where
  "parseRed txt = Some redAnalysis"

definition sampleReport :: "string \<Rightarrow> string \<Rightarrow> string \<Rightarrow> int \<Rightarrow> CaseReport" where
  "sampleReport vid loc stext n =
     \<lparr> id_r = ''r-1'', villageId = vid, workerName = ''Lakshmi'', workerLocation = loc,
       sanitationStatus = Ok, diseaseType = ''Unknown'', symptoms = stext, affectedCount = n,
       timestamp = ''2024-01-01T00:00:00.000Z'', notes_r = [] \<rparr>"

definition seed :: "Village list" where
  "seed = INITIAL_VILLAGES ''2024-01-03'' ''2024-01-02'' ''2024-01-01''"

text \<open>
  Three villages on a road and a table of distances between them in metres, the
  scenario of three villages of which the first and the last are too far apart.
\<close>

definition roadVillage :: "string \<Rightarrow> rat \<Rightarrow> HealthStatus \<Rightarrow> Village" where
  "roadVillage vid km st =
     \<lparr> id_v = vid, name = vid, district = ''Vizianagaram'',
       coordinates = \<lparr> lat = Fin km, lng = Fin 0 \<rparr>,
       population = 1000, activeCases = 3, status = st, lastReported = ''2024-01-03'',
       lastAshaWorker = None, dominantSymptoms = [''Fever''], comments = [],
       lastAnalysis = None \<rparr>"

definition tableDistance :: "Coordinates \<Rightarrow> Coordinates \<Rightarrow> jsnum" where
  "tableDistance c1 c2 =
     (if lat c1 = lat c2 then Fin 0
      else if (lat c1 = Fin 0 \<and> lat c2 = Fin 20) \<or> (lat c1 = Fin 20 \<and> lat c2 = Fin 0)
      then Fin 25000
      else Fin 10000)"

definition adviseDown :: "Village list \<Rightarrow> HealthStatus \<Rightarrow> gen_result" where
  "adviseDown currentCluster sev = Rejected"

definition fixedClock :: "nat \<Rightarrow> nat" where
  "fixedClock i = 1704240000000"

definition roadVillages :: "Village list" where
  "roadVillages =
     [roadVillage ''A'' 0 YELLOW, roadVillage ''B'' 10 RED, roadVillage ''C'' 20 YELLOW]"

section \<open>Properties of the built-ins\<close>

lemma split_on_nonempty: "split_on sep s \<noteq> []"
  by (induction s) (auto split: list.splits)

section \<open>Looking a village up after a change\<close>

lemma findVillage_id: "findVillage vid vs = Some v \<Longrightarrow> id_v v = vid"
  unfolding findVillage_def by (induction vs) (auto split: if_splits)

lemma findVillage_None_iff: "findVillage vid vs = None \<longleftrightarrow> vid \<notin> id_v ` set vs"
  unfolding findVillage_def by (induction vs) auto

lemma findVillage_append_new:
  "findVillage vid vs = None \<Longrightarrow> id_v u = vid \<Longrightarrow> findVillage vid (vs @ [u]) = Some u"
  unfolding findVillage_def by (induction vs) (auto split: if_splits)

lemma findVillage_replace:
  "findVillage vid vs = Some v \<Longrightarrow> id_v u = vid
     \<Longrightarrow> findVillage vid (map (\<lambda>x. if id_v x = vid then u else x) vs) = Some u"
  unfolding findVillage_def by (induction vs) (auto split: if_splits)

lemma id_updatedVillage: "id_v (updatedVillage n v r a) = id_v v"
  by (simp add: updatedVillage_def)

lemma id_targetVillage: "id_v (targetVillage n r nm vs) = villageId r"
  by (auto simp: targetVillage_def newVillage_def findVillage_id split: option.splits)

text \<open>After ingestion the repository holds, under the report's id, the updated village.\<close>

lemma ingest_lookup:
  "findVillage (villageId r) (handleReportSubmit g p n0 n1 r nm vs)
     = Some (updatedVillage n1 (targetVillage n0 r nm vs) r
               (analyzeVillageHealth g p (targetVillage n0 r nm vs) r))"
proof (cases "findVillage (villageId r) vs")
  case None
  then show ?thesis
    by (simp add: handleReportSubmit_def Let_def findVillage_append_new
          id_updatedVillage id_targetVillage)
next
  case (Some v)
  then show ?thesis
    by (simp add: handleReportSubmit_def Let_def findVillage_replace
          id_updatedVillage id_targetVillage)
qed

lemma oracleFails_fallback:
  "oracleFails g p v r \<Longrightarrow> analyzeVillageHealth g p v r = fallbackAnalysis"
  by (auto simp: oracleFails_def analyzeVillageHealth_def split: gen_result.splits option.splits)

lemmas seed_defs = seed_def INITIAL_VILLAGES_def sampleReport_def findVillage_def
  targetVillage_def handleReportSubmit_def updatedVillage_def analyzeVillageHealth_def
  oracleDown_def parseNothing_def oracleUp_def parseRed_def oracleFails_def

section \<open>Report ingestion: case count\<close>

text \<open>
  C2. Ingesting a report sets the village's \<open>activeCases\<close> to its prior value (0 for a
  village the report creates) plus \<open>report.affectedCount\<close>, whatever the oracle does:
  the statement holds for every \<open>generateContent\<close> and \<open>jsonParse\<close>. With an
  \<open>affectedCount\<close> that is not negative, as the data model has it, \<open>activeCases\<close> does
  not decrease.
\<close>

theorem ingest_adds_affectedCount:
  "\<exists>v'. findVillage (villageId r) (handleReportSubmit g p n0 n1 r nm vs) = Some v'
     \<and> (\<forall>v. findVillage (villageId r) vs = Some v
            \<longrightarrow> activeCases v' = activeCases v + affectedCount r)
     \<and> (findVillage (villageId r) vs = None \<longrightarrow> activeCases v' = affectedCount r)
     \<and> (0 \<le> affectedCount r
            \<longrightarrow> activeCases (targetVillage n0 r nm vs) \<le> activeCases v')"
  by (simp add: ingest_lookup updatedVillage_def targetVillage_def newVillage_def)

theorem ingest_adds_affectedCount_witness:
  "findVillage ''v1'' seed \<noteq> None
   \<and> map_option activeCases (findVillage ''v1'' seed) = Some 2
   \<and> (0::int) \<le> 5
   \<and> (\<exists>v'. findVillage ''v1''
              (handleReportSubmit oracleDown parseNothing ''t0'' ''t1''
                 (sampleReport ''v1'' [] ''Fever'' 5) ''Pedana'' seed) = Some v'
           \<and> activeCases v' = 7)
   \<and> (\<exists>v'. findVillage ''v1''
              (handleReportSubmit oracleUp parseRed ''t0'' ''t1''
                 (sampleReport ''v1'' [] ''Fever'' 5) ''Pedana'' seed) = Some v'
           \<and> activeCases v' = 7)"
  using ingest_adds_affectedCount [of "sampleReport ''v1'' [] ''Fever'' 5" oracleDown
      parseNothing "''t0''" "''t1''" "''Pedana''" seed]
    ingest_adds_affectedCount [of "sampleReport ''v1'' [] ''Fever'' 5" oracleUp
      parseRed "''t0''" "''t1''" "''Pedana''" seed]
  by (simp add: seed_defs)

section \<open>Report ingestion: a failing oracle\<close>

text \<open>
  C3. When the oracle call fails (the request is rejected, the response has no text or
  an empty one, or the text does not parse), \<open>analyzeVillageHealth\<close> still returns a
  value, the fixed fallback, whose \<open>riskLevel\<close> is \<open>YELLOW\<close> and whose
  \<open>predictedOutbreakChance\<close> is 50; ingestion completes, and the updated village has
  status \<open>YELLOW\<close> and carries the fallback as its analysis. The model of the handler
  has no error value because the source has no path that throws outside the
  \<open>try\<close> block of the oracle.
\<close>

theorem ingest_oracle_failure:
  assumes "oracleFails g p (targetVillage n0 r nm vs) r"
  shows "analyzeVillageHealth g p (targetVillage n0 r nm vs) r = fallbackAnalysis
     \<and> riskLevel fallbackAnalysis = YELLOW
     \<and> predictedOutbreakChance fallbackAnalysis = 50
     \<and> (\<exists>v'. findVillage (villageId r) (handleReportSubmit g p n0 n1 r nm vs) = Some v'
            \<and> status v' = YELLOW
            \<and> map_option predictedOutbreakChance (lastAnalysis v') = Some 50)"
proof -
  have fb: "analyzeVillageHealth g p (targetVillage n0 r nm vs) r = fallbackAnalysis"
    using assms by (rule oracleFails_fallback)
  have "riskLevel fallbackAnalysis = YELLOW" "predictedOutbreakChance fallbackAnalysis = 50"
    by (simp_all add: fallbackAnalysis_def)
  then show ?thesis
    using fb by (simp add: ingest_lookup updatedVillage_def)
qed

theorem ingest_oracle_failure_witness:
  "oracleFails oracleDown parseNothing
     (targetVillage ''t0'' (sampleReport ''v1'' [] ''Fever'' 5) ''Pedana'' seed)
     (sampleReport ''v1'' [] ''Fever'' 5)
   \<and> oracleFails oracleUp parseNothing
     (targetVillage ''t0'' (sampleReport ''v1'' [] ''Fever'' 5) ''Pedana'' seed)
     (sampleReport ''v1'' [] ''Fever'' 5)
   \<and> map_option status (findVillage ''v1''
        (handleReportSubmit oracleDown parseNothing ''t0'' ''t1''
           (sampleReport ''v1'' [] ''Fever'' 5) ''Pedana'' seed)) = Some YELLOW
   \<and> map_option status (findVillage ''v1''
        (handleReportSubmit oracleUp parseNothing ''t0'' ''t1''
           (sampleReport ''v1'' [] ''Fever'' 5) ''Pedana'' seed)) = Some YELLOW"
proof -
  let ?r = "sampleReport ''v1'' [] ''Fever'' 5"
  have d: "oracleFails oracleDown parseNothing (targetVillage ''t0'' ?r ''Pedana'' seed) ?r"
    by (simp add: oracleFails_def oracleDown_def)
  have u: "oracleFails oracleUp parseNothing (targetVillage ''t0'' ?r ''Pedana'' seed) ?r"
    by (simp add: oracleFails_def oracleUp_def parseNothing_def)
  have rid: "villageId ?r = ''v1''"
    by (simp add: sampleReport_def)
  show ?thesis
    using d u ingest_oracle_failure [OF d, of "''t1''"] ingest_oracle_failure [OF u, of "''t1''"]
    by (auto simp: rid)
qed

section \<open>Report ingestion: the cached analysis\<close>

text \<open>
  C8. After every ingestion the updated village's \<open>lastAnalysis\<close> is the analysis made
  for that ingestion: the parsed answer of the oracle when it answers, the fallback
  when the call fails.
\<close>

theorem ingest_caches_analysis:
  "\<exists>v'. findVillage (villageId r) (handleReportSubmit g p n0 n1 r nm vs) = Some v'
     \<and> lastAnalysis v' = Some (analyzeVillageHealth g p (targetVillage n0 r nm vs) r)
     \<and> (oracleFails g p (targetVillage n0 r nm vs) r
            \<longrightarrow> lastAnalysis v' = Some fallbackAnalysis)
     \<and> (\<forall>txt a. g (targetVillage n0 r nm vs) r = Response (Some txt) \<and> txt \<noteq> []
              \<and> p txt = Some a \<longrightarrow> lastAnalysis v' = Some a)"
proof -
  let ?v = "targetVillage n0 r nm vs"
  let ?a = "analyzeVillageHealth g p ?v r"
  let ?u = "updatedVillage n1 ?v r ?a"
  have cached: "lastAnalysis ?u = Some ?a"
    by (simp add: updatedVillage_def)
  have failing: "oracleFails g p ?v r \<longrightarrow> ?a = fallbackAnalysis"
    by (simp add: oracleFails_fallback)
  have answering: "\<forall>txt a. g ?v r = Response (Some txt) \<and> txt \<noteq> [] \<and> p txt = Some a
      \<longrightarrow> ?a = a"
    by (simp add: analyzeVillageHealth_def)
  show ?thesis
  proof (intro exI conjI)
    show "findVillage (villageId r) (handleReportSubmit g p n0 n1 r nm vs) = Some ?u"
      by (rule ingest_lookup)
    show "lastAnalysis ?u = Some ?a"
      by (rule cached)
    show "oracleFails g p ?v r \<longrightarrow> lastAnalysis ?u = Some fallbackAnalysis"
      unfolding cached using failing by simp
    show "\<forall>txt a. g ?v r = Response (Some txt) \<and> txt \<noteq> [] \<and> p txt = Some a
        \<longrightarrow> lastAnalysis ?u = Some a"
      unfolding cached using answering by simp
  qed
qed

theorem ingest_caches_analysis_witness:
  "oracleFails oracleDown parseNothing
     (targetVillage ''t0'' (sampleReport ''v1'' [] ''Fever'' 5) ''Pedana'' seed)
     (sampleReport ''v1'' [] ''Fever'' 5)
   \<and> map_option lastAnalysis (findVillage ''v1''
        (handleReportSubmit oracleDown parseNothing ''t0'' ''t1''
           (sampleReport ''v1'' [] ''Fever'' 5) ''Pedana'' seed)) = Some (Some fallbackAnalysis)
   \<and> oracleUp (targetVillage ''t0'' (sampleReport ''v1'' [] ''Fever'' 5) ''Pedana'' seed)
        (sampleReport ''v1'' [] ''Fever'' 5) = Response (Some ''{...}'')
   \<and> parseRed ''{...}'' = Some redAnalysis
   \<and> map_option lastAnalysis (findVillage ''v1''
        (handleReportSubmit oracleUp parseRed ''t0'' ''t1''
           (sampleReport ''v1'' [] ''Fever'' 5) ''Pedana'' seed)) = Some (Some redAnalysis)"
proof -
  let ?r = "sampleReport ''v1'' [] ''Fever'' 5"
  have d: "oracleFails oracleDown parseNothing (targetVillage ''t0'' ?r ''Pedana'' seed) ?r"
    by (simp add: oracleFails_def oracleDown_def)
  have u: "oracleUp (targetVillage ''t0'' ?r ''Pedana'' seed) ?r = Response (Some ''{...}'')"
    by (simp add: oracleUp_def)
  have q: "parseRed ''{...}'' = Some redAnalysis"
    by (simp add: parseRed_def)
  have rid: "villageId ?r = ''v1''"
    by (simp add: sampleReport_def)
  show ?thesis
    using d u q
      ingest_caches_analysis [of ?r oracleDown parseNothing "''t0''" "''t1''" "''Pedana''" seed]
      ingest_caches_analysis [of ?r oracleUp parseRed "''t0''" "''t1''" "''Pedana''" seed]
    by (auto simp: rid)
qed

text \<open>
  The revision of the handler in \<open>unnamed/part_003\<close> leaves \<open>lastAnalysis\<close> as it was.
\<close>

lemma id_updatedVillage_part003: "id_v (updatedVillage_part003 n v r a) = id_v v"
  by (simp add: updatedVillage_part003_def)

lemma ingest_part003_lookup:
  "findVillage (villageId r) (handleReportSubmit_part003 g p n0 n1 r nm vs)
     = Some (updatedVillage_part003 n1 (targetVillage n0 r nm vs) r
               (analyzeVillageHealth g p (targetVillage n0 r nm vs) r))"
proof (cases "findVillage (villageId r) vs")
  case None
  then show ?thesis
    by (simp add: handleReportSubmit_part003_def Let_def findVillage_append_new
          id_updatedVillage_part003 id_targetVillage)
next
  case (Some v)
  then show ?thesis
    by (simp add: handleReportSubmit_part003_def Let_def findVillage_replace
          id_updatedVillage_part003 id_targetVillage)
qed

lemma ingest_part003_keeps_lastAnalysis:
  "map_option lastAnalysis
       (findVillage (villageId r) (handleReportSubmit_part003 g p n0 n1 r nm vs))
     = Some (lastAnalysis (targetVillage n0 r nm vs))"
  by (simp add: ingest_part003_lookup updatedVillage_part003_def)

section \<open>Report ingestion: what stays the same\<close>

text \<open>
  C10, as the claim states it, fails: besides \<open>activeCases\<close>, \<open>status\<close>,
  \<open>lastReported\<close>, \<open>lastAshaWorker\<close> and \<open>dominantSymptoms\<close>, ingestion writes
  \<open>lastAnalysis\<close>. The seed village \<open>v1\<close> has none before a report and the fallback
  analysis after it.
\<close>

theorem ingest_frame_counterexample:
  "map_option lastAnalysis (findVillage ''v1'' seed) = Some None
   \<and> map_option lastAnalysis (findVillage ''v1''
        (handleReportSubmit oracleDown parseNothing ''t0'' ''t1''
           (sampleReport ''v1'' [] ''Fever'' 5) ''Pedana'' seed)) = Some (Some fallbackAnalysis)"
  by (simp add: seed_defs)

text \<open>
  C10, amended. For a report against a village \<open>v\<close> that exists, the updated village
  keeps \<open>id\<close>, \<open>name\<close>, \<open>district\<close>, \<open>coordinates\<close>, \<open>population\<close> and \<open>comments\<close>,
  and differs from \<open>v\<close> at most in \<open>activeCases\<close>, \<open>status\<close>, \<open>lastReported\<close>,
  \<open>lastAshaWorker\<close>, \<open>dominantSymptoms\<close> and \<open>lastAnalysis\<close>.
\<close>

theorem ingest_frame:
  assumes "findVillage (villageId r) vs = Some v"
  shows "\<exists>v'. findVillage (villageId r) (handleReportSubmit g p n0 n1 r nm vs) = Some v'
     \<and> id_v v' = id_v v \<and> name v' = name v \<and> district v' = district v
     \<and> coordinates v' = coordinates v \<and> population v' = population v
     \<and> comments v' = comments v
     \<and> v' = v\<lparr> activeCases := activeCases v', status := status v',
                lastReported := lastReported v', lastAshaWorker := lastAshaWorker v',
                dominantSymptoms := dominantSymptoms v', lastAnalysis := lastAnalysis v' \<rparr>"
  using assms by (simp add: ingest_lookup updatedVillage_def targetVillage_def)

theorem ingest_frame_witness:
  "map_option name (findVillage ''v1'' seed) = Some ''Pedana''
   \<and> map_option name (findVillage ''v1''
        (handleReportSubmit oracleDown parseNothing ''t0'' ''t1''
           (sampleReport ''v1'' [] ''Fever'' 5) ''Somewhere'' seed)) = Some ''Pedana''"
proof -
  let ?r = "sampleReport ''v1'' [] ''Fever'' 5"
  have rid: "villageId ?r = ''v1''"
    by (simp add: sampleReport_def)
  have f: "findVillage (villageId ?r) seed = Some (hd seed)"
    by (simp add: seed_def INITIAL_VILLAGES_def findVillage_def sampleReport_def)
  have n: "name (hd seed) = ''Pedana''"
    by (simp add: seed_def INITIAL_VILLAGES_def)
  show ?thesis
    using f n ingest_frame [OF f, of oracleDown parseNothing "''t0''" "''t1''" "''Somewhere''"]
    by (auto simp: rid)
qed

section \<open>Report ingestion: the symptom list\<close>

lemma foldl_setAdd:
  "distinct acc \<Longrightarrow>
     distinct (foldl setAdd acc xs) \<and> set (foldl setAdd acc xs) = set acc \<union> set xs"
  by (induction xs arbitrary: acc) (auto simp: setAdd_def)

lemma arrayFromSet_distinct: "distinct (arrayFromSet xs)"
  using foldl_setAdd [of "[]" xs] by (simp add: arrayFromSet_def)

lemma arrayFromSet_set: "set (arrayFromSet xs) = set xs"
  using foldl_setAdd [of "[]" xs] by (simp add: arrayFromSet_def)

lemma arrayFromSet_snoc: "arrayFromSet (xs @ [x]) = setAdd (arrayFromSet xs) x"
  by (simp add: arrayFromSet_def)

lemma foldl_setAdd_length: "length acc \<le> length (foldl setAdd acc xs)"
proof (induction xs arbitrary: acc)
  case Nil
  show ?case by simp
next
  case (Cons x xs)
  have "length acc \<le> length (setAdd acc x)"
    by (simp add: setAdd_def)
  also have "\<dots> \<le> length (foldl setAdd (setAdd acc x) xs)"
    by (rule Cons.IH)
  finally show ?case by simp
qed

lemma foldl_setAdd_id: "set xs \<subseteq> set acc \<Longrightarrow> foldl setAdd acc xs = acc"
  by (induction xs arbitrary: acc) (auto simp: setAdd_def)

lemma foldl_setAdd_distinct_self:
  "distinct (acc @ xs) \<Longrightarrow> foldl setAdd acc xs = acc @ xs"
  by (induction xs arbitrary: acc) (auto simp: setAdd_def)

lemma arrayFromSet_of_distinct: "distinct xs \<Longrightarrow> arrayFromSet xs = xs"
  using foldl_setAdd_distinct_self [of "[]" xs] by (simp add: arrayFromSet_def)

text \<open>
  In \<open>App.tsx\<close> a report adds at most one entry to a village's symptom list, the first
  token of its symptoms, and adds it whenever the list (without repetitions) does not
  hold it yet: nothing bounds the length.
\<close>

lemma ingest_symptoms_step:
  assumes "distinct (dominantSymptoms (targetVillage n0 r nm vs))"
  shows "map_option dominantSymptoms
           (findVillage (villageId r) (handleReportSubmit g p n0 n1 r nm vs))
     = Some (setAdd (dominantSymptoms (targetVillage n0 r nm vs))
               (firstSymptom (symptoms r)))"
  using assms
  by (simp add: ingest_lookup updatedVillage_def arrayFromSet_snoc arrayFromSet_of_distinct)

text \<open>
  C1. In \<open>App.tsx\<close> the list is not capped. The seed village \<open>v3\<close> has three symptoms;
  a report whose first symptom is new gives it a fourth. The revision of the handler in
  \<open>unnamed/part_002\<close> does cut the list to three entries (\<open>slice(0, 3)\<close>, lemma
  \<open>ingest_part002_cap\<close> below).
\<close>

theorem ingest_symptoms_exceed_cap:
  "map_option dominantSymptoms (findVillage ''v3'' seed)
     = Some [''High Fever'', ''Vomiting'', ''Rash'']
   \<and> map_option dominantSymptoms (findVillage ''v3''
        (handleReportSubmit oracleDown parseNothing ''t0'' ''t1''
           (sampleReport ''v3'' [] ''Cough,Fever'' 1) ''Cheepurupalli'' seed))
     = Some [''High Fever'', ''Vomiting'', ''Rash'', ''Cough'']"
  by (simp add: seed_defs firstSymptom_def arrayFromSet_def setAdd_def)

lemma findIndex_less: "findIndex P xs = Some i \<Longrightarrow> i < length xs"
  by (induction xs arbitrary: i) (auto split: if_splits option.splits)

lemma ingest_part002_cap:
  assumes "findIndex (\<lambda>v. id_v v = villageId r) vs = Some i"
  shows "length (dominantSymptoms (handleReportSubmit_part002 g p n r vs ! i)) \<le> 3
     \<and> distinct (dominantSymptoms (handleReportSubmit_part002 g p n r vs ! i))"
  using assms findIndex_less [OF assms]
  by (simp add: handleReportSubmit_part002_def Let_def updatedVillage_part002_def
        arrayFromSet_distinct)

lemma ingest_part002_unknown:
  "findIndex (\<lambda>v. id_v v = villageId r) vs = None
     \<Longrightarrow> handleReportSubmit_part002 g p n r vs = vs"
  by (simp add: handleReportSubmit_part002_def)

section \<open>Comments\<close>

text \<open>
  C9, as the claim states it, fails for a comment whose text is blank: the handler
  returns before it touches the villages, also when the village exists.
\<close>

theorem addComment_blank_counterexample:
  "findVillage ''v1'' seed \<noteq> None
   \<and> map_option comments (findVillage ''v1''
        (handleAddComment ''   '' ''c-1'' ''2024-01-04'' ''v1'' seed)) = Some []"
  by (simp add: seed_def INITIAL_VILLAGES_def findVillage_def handleAddComment_def
        trim_def isSpace_def)

text \<open>
  C9, amended. A comment for an id that no village has changes nothing, and neither
  does a comment whose text is blank. Otherwise the comment is put in front of the
  comments of every village with that id, and every other village stays as it is.
\<close>

theorem addComment_effect:
  "(vid \<notin> id_v ` set vs \<longrightarrow> handleAddComment txt uuid now vid vs = vs)
   \<and> (trim txt = [] \<longrightarrow> handleAddComment txt uuid now vid vs = vs)
   \<and> (trim txt \<noteq> [] \<longrightarrow>
        length (handleAddComment txt uuid now vid vs) = length vs
        \<and> (\<forall>i < length vs.
              handleAddComment txt uuid now vid vs ! i =
                (if id_v (vs ! i) = vid
                 then (vs ! i)\<lparr>comments :=
                        \<lparr> id_c = uuid, author = ''Public User'', text_c = txt,
                          timestamp_c = now \<rparr> # comments (vs ! i)\<rparr>
                 else vs ! i)))"
proof (intro conjI impI)
  assume "vid \<notin> id_v ` set vs"
  then have "map (\<lambda>v. if id_v v = vid then f v else v) vs = vs" for f
    by (intro map_idI) auto
  then show "handleAddComment txt uuid now vid vs = vs"
    by (simp add: handleAddComment_def Let_def)
next
  assume "trim txt = []"
  then show "handleAddComment txt uuid now vid vs = vs"
    by (simp add: handleAddComment_def)
next
  assume "trim txt \<noteq> []"
  then show "length (handleAddComment txt uuid now vid vs) = length vs"
    by (simp add: handleAddComment_def Let_def)
next
  assume "trim txt \<noteq> []"
  then show "\<forall>i < length vs.
      handleAddComment txt uuid now vid vs ! i =
        (if id_v (vs ! i) = vid
         then (vs ! i)\<lparr>comments :=
                \<lparr> id_c = uuid, author = ''Public User'', text_c = txt,
                  timestamp_c = now \<rparr> # comments (vs ! i)\<rparr>
         else vs ! i)"
    by (simp add: handleAddComment_def Let_def)
qed

theorem addComment_effect_witness:
  "''v9'' \<notin> id_v ` set seed
   \<and> handleAddComment ''Please send help'' ''c-1'' ''2024-01-04'' ''v9'' seed = seed
   \<and> trim ''Please send help'' \<noteq> []
   \<and> (1::nat) < length seed \<and> id_v (seed ! 1) = ''v2''
   \<and> map text_c (comments (handleAddComment ''Please send help'' ''c-1'' ''2024-01-04''
        ''v2'' seed ! 1)) = [''Please send help'']
   \<and> handleAddComment ''Please send help'' ''c-1'' ''2024-01-04'' ''v2'' seed ! 0 = seed ! 0"
proof -
  have a: "''v9'' \<notin> id_v ` set seed"
    by (simp add: seed_def INITIAL_VILLAGES_def)
  have t: "trim ''Please send help'' \<noteq> []"
    by (simp add: trim_def isSpace_def)
  have l: "(1::nat) < length seed" "(0::nat) < length seed"
    by (simp_all add: seed_def INITIAL_VILLAGES_def)
  have i: "id_v (seed ! 1) = ''v2''" "id_v (seed ! 0) \<noteq> ''v2''" "comments (seed ! 1) = []"
    by (simp_all add: seed_def INITIAL_VILLAGES_def)
  show ?thesis
    using a t l i
      addComment_effect [of "''v9''" seed "''Please send help''" "''c-1''" "''2024-01-04''"]
      addComment_effect [of "''v2''" seed "''Please send help''" "''c-1''" "''2024-01-04''"]
    by simp
qed

section \<open>Report ingestion: a village that is not yet known\<close>

lemma split_on_first:
  "sep \<notin> set a \<Longrightarrow> split_on sep (a @ sep # b) = a # split_on sep b"
  by (induction a) auto

lemma split_on_head: "\<exists>ps. split_on sep b = takeWhile (\<lambda>c. c \<noteq> sep) b # ps"
  by (induction b) (auto split: list.splits)

lemma parseCoords_no_comma: "CHR '','' \<notin> set loc \<Longrightarrow> parseCoords loc = defaultCoords"
  by (simp add: parseCoords_def)

lemma parseCoords_halves:
  assumes "CHR '','' \<notin> set a"
  shows "parseCoords (a @ CHR '','' # b) =
     (if isNaN (parseFloat (trim a))
         \<or> isNaN (parseFloat (trim (takeWhile (\<lambda>c. c \<noteq> CHR '','') b)))
      then defaultCoords
      else \<lparr> lat = parseFloat (trim a),
             lng = parseFloat (trim (takeWhile (\<lambda>c. c \<noteq> CHR '','') b)) \<rparr>)"
proof -
  obtain ps where "split_on CHR '','' b = takeWhile (\<lambda>c. c \<noteq> CHR '','') b # ps"
    using split_on_head by blast
  then have "split_on CHR '','' (a @ CHR '','' # b)
      = a # takeWhile (\<lambda>c. c \<noteq> CHR '','') b # ps"
    using assms by (simp add: split_on_first)
  then show ?thesis
    by (simp add: parseCoords_def)
qed

lemma parseFloat_18_3: "parseFloat ''18.3'' = Fin (183 / 10)"
  by (simp add: parseFloat_def isSpace_def parseUnsigned_def isDigit_def digitsVal_def
        digitVal_def scale10_def parseExponent_def)

lemma parseFloat_83_5: "parseFloat ''83.5'' = Fin (835 / 10)"
  by (simp add: parseFloat_def isSpace_def parseUnsigned_def isDigit_def digitsVal_def
        digitVal_def scale10_def parseExponent_def)

lemma parseCoords_example: "parseCoords ''18.3,83.5'' = \<lparr> lat = Fin (183 / 10), lng = Fin (835 / 10) \<rparr>"
proof -
  have "parseCoords (''18.3'' @ CHR '','' # ''83.5'')
      = \<lparr> lat = Fin (183 / 10), lng = Fin (835 / 10) \<rparr>"
    by (subst parseCoords_halves)
      (simp_all add: trim_def isSpace_def parseFloat_18_3 parseFloat_83_5 isNaN_def)
  then show ?thesis by simp
qed

lemma parseCoords_bad_input: "parseCoords ''bad input'' = defaultCoords"
  by (simp add: parseCoords_def)

text \<open>
  C7. A report whose \<open>villageId\<close> is not in the repository appends one village, with
  that id, whose coordinates come from \<open>report.workerLocation\<close>: without a comma the
  fixed default centre; with one, the text before the first comma and the text after
  it (up to a second comma, if any) are trimmed and read by \<open>parseFloat\<close>, and the
  village gets the two numbers unless one of them is \<open>NaN\<close>, in which case it gets the
  default centre. \<open>"18.3,83.5"\<close> gives 18.3 and 83.5; \<open>"bad input"\<close> gives the default
  centre (20.5937, 78.9629).
\<close>

theorem ingest_new_village_coordinates:
  assumes "findVillage (villageId r) vs = None"
  shows "\<exists>nv. handleReportSubmit g p n0 n1 r nm vs = vs @ [nv]
     \<and> id_v nv = villageId r
     \<and> (CHR '','' \<notin> set (workerLocation r) \<longrightarrow> coordinates nv = defaultCoords)
     \<and> (\<forall>a b. workerLocation r = a @ CHR '','' # b \<and> CHR '','' \<notin> set a \<longrightarrow>
           coordinates nv =
             (if isNaN (parseFloat (trim a))
                 \<or> isNaN (parseFloat (trim (takeWhile (\<lambda>c. c \<noteq> CHR '','') b)))
              then defaultCoords
              else \<lparr> lat = parseFloat (trim a),
                     lng = parseFloat (trim (takeWhile (\<lambda>c. c \<noteq> CHR '','') b)) \<rparr>))
     \<and> (workerLocation r = ''18.3,83.5''
           \<longrightarrow> coordinates nv = \<lparr> lat = Fin (183 / 10), lng = Fin (835 / 10) \<rparr>)
     \<and> (workerLocation r = ''bad input''
           \<longrightarrow> coordinates nv = \<lparr> lat = Fin (205937 / 10000), lng = Fin (789629 / 10000) \<rparr>)"
proof -
  let ?v = "newVillage n0 r nm"
  let ?nv = "updatedVillage n1 ?v r (analyzeVillageHealth g p ?v r)"
  have tv: "targetVillage n0 r nm vs = ?v"
    using assms by (simp add: targetVillage_def)
  have co: "coordinates ?nv = parseCoords (workerLocation r)"
    by (simp add: updatedVillage_def newVillage_def)
  show ?thesis
  proof (intro exI conjI allI impI)
    show "handleReportSubmit g p n0 n1 r nm vs = vs @ [?nv]"
      using assms by (simp add: handleReportSubmit_def Let_def tv)
    show "id_v ?nv = villageId r"
      by (simp add: updatedVillage_def newVillage_def)
    show "coordinates ?nv = defaultCoords" if "CHR '','' \<notin> set (workerLocation r)"
      using that by (simp add: co parseCoords_no_comma)
    show "coordinates ?nv =
        (if isNaN (parseFloat (trim a))
            \<or> isNaN (parseFloat (trim (takeWhile (\<lambda>c. c \<noteq> CHR '','') b)))
         then defaultCoords
         else \<lparr> lat = parseFloat (trim a),
                lng = parseFloat (trim (takeWhile (\<lambda>c. c \<noteq> CHR '','') b)) \<rparr>)"
      if "workerLocation r = a @ CHR '','' # b \<and> CHR '','' \<notin> set a" for a b
      using that parseCoords_halves [of a b] by (simp add: co)
    show "coordinates ?nv = \<lparr> lat = Fin (183 / 10), lng = Fin (835 / 10) \<rparr>"
      if "workerLocation r = ''18.3,83.5''"
      unfolding co that by (rule parseCoords_example)
    show "coordinates ?nv = \<lparr> lat = Fin (205937 / 10000), lng = Fin (789629 / 10000) \<rparr>"
      if "workerLocation r = ''bad input''"
      unfolding co that by (simp add: parseCoords_bad_input defaultCoords_def)
  qed
qed

theorem ingest_new_village_coordinates_witness:
  "findVillage ''new-17'' seed = None
   \<and> map coordinates (drop 5
        (handleReportSubmit oracleDown parseNothing ''t0'' ''t1''
           (sampleReport ''new-17'' ''18.3,83.5'' ''Fever'' 2) ''Kottam'' seed))
       = [\<lparr> lat = Fin (183 / 10), lng = Fin (835 / 10) \<rparr>]
   \<and> map coordinates (drop 5
        (handleReportSubmit oracleDown parseNothing ''t0'' ''t1''
           (sampleReport ''new-17'' ''bad input'' ''Fever'' 2) ''Kottam'' seed))
       = [\<lparr> lat = Fin (205937 / 10000), lng = Fin (789629 / 10000) \<rparr>]"
proof -
  have l: "length seed = 5"
    by (simp add: seed_def INITIAL_VILLAGES_def)
  have a: "findVillage (villageId (sampleReport ''new-17'' ''18.3,83.5'' ''Fever'' 2)) seed
      = None"
    by (simp add: seed_def INITIAL_VILLAGES_def findVillage_def sampleReport_def)
  have b: "findVillage (villageId (sampleReport ''new-17'' ''bad input'' ''Fever'' 2)) seed
      = None"
    by (simp add: seed_def INITIAL_VILLAGES_def findVillage_def sampleReport_def)
  have w: "workerLocation (sampleReport ''new-17'' ''18.3,83.5'' ''Fever'' 2) = ''18.3,83.5''"
    "workerLocation (sampleReport ''new-17'' ''bad input'' ''Fever'' 2) = ''bad input''"
    "villageId (sampleReport ''new-17'' ''18.3,83.5'' ''Fever'' 2) = ''new-17''"
    by (simp_all add: sampleReport_def)
  show ?thesis
    using a
      ingest_new_village_coordinates [OF a, of oracleDown parseNothing "''t0''" "''t1''" "''Kottam''"]
      ingest_new_village_coordinates [OF b, of oracleDown parseNothing "''t0''" "''t1''" "''Kottam''"]
    by (auto simp: l w)
qed

section \<open>Cluster detection\<close>

lemma findNeighbours_members:
  "findNeighbours gd v1 rest (cur, pr) = (cur', pr')
     \<Longrightarrow> set cur' \<subseteq> set cur \<union> set rest \<and> length cur \<le> length cur'"
proof (induction rest arbitrary: cur pr)
  case Nil
  then show ?case by simp
next
  case (Cons v2 rest)
  show ?case
  proof (cases "id_v v2 \<notin> pr
      \<and> jsLe (gd (coordinates v1) (coordinates v2)) (Fin DISTANCE_THRESHOLD)")
    case True
    then have "findNeighbours gd v1 rest (cur @ [v2], insert (id_v v2) pr) = (cur', pr')"
      using Cons.prems by simp
    from Cons.IH [OF this] show ?thesis by auto
  next
    case False
    then have "findNeighbours gd v1 rest (cur, pr) = (cur', pr')"
      using Cons.prems by (auto split: if_splits)
    from Cons.IH [OF this] show ?thesis by auto
  qed
qed

text \<open>
  Whatever holds of the clusters gathered so far, and of every cluster made from at
  least two of the villages at hand, holds of every cluster the loop returns.
\<close>

lemma clusterLoop_invariant:
  assumes "\<forall>c \<in> set clusters. Q c"
    and "\<And>i cur. 2 \<le> length cur \<Longrightarrow> set cur \<subseteq> U \<Longrightarrow> Q (makeCluster advise nowMs i cur)"
    and "set vs \<subseteq> U"
  shows "\<forall>c \<in> set (clusterLoop gd advise nowMs i vs processed clusters). Q c"
  using assms(1,3)
proof (induction vs arbitrary: i processed clusters)
  case Nil
  then show ?case by simp
next
  case (Cons v1 rest)
  have rest: "set rest \<subseteq> U" and v1: "v1 \<in> U"
    using Cons.prems(2) by auto
  show ?case
  proof (cases "id_v v1 \<in> processed")
    case True
    then show ?thesis
      using Cons.IH [OF Cons.prems(1) rest] by simp
  next
    case False
    obtain cur pr' where fn:
      "findNeighbours gd v1 rest ([v1], insert (id_v v1) processed) = (cur, pr')"
      by (cases "findNeighbours gd v1 rest ([v1], insert (id_v v1) processed)") auto
    have sub: "set cur \<subseteq> U"
      using findNeighbours_members [OF fn] rest v1 by auto
    let ?cl = "if 2 \<le> length cur then clusters @ [makeCluster advise nowMs i cur] else clusters"
    have "\<forall>c \<in> set ?cl. Q c"
      using Cons.prems(1) assms(2) [of cur i] sub by auto
    from Cons.IH [OF this rest, of "Suc i" pr'] show ?thesis
      using False fn by simp
  qed
qed

text \<open>
  C5. Every cluster the detector returns has at least two member ids, for every list of
  villages, distance function, advice service and clock.
\<close>

theorem clusters_have_two_members:
  "\<forall>c \<in> set (analyzeClusters gd advise nowMs villages). 2 \<le> length (villageIds c)"
  unfolding analyzeClusters_def
  by (rule clusterLoop_invariant [where U = UNIV]) (simp_all add: makeCluster_def Let_def)

theorem clusters_have_two_members_witness:
  "analyzeClusters tableDistance adviseDown fixedClock roadVillages \<noteq> []
   \<and> map villageIds (analyzeClusters tableDistance adviseDown fixedClock roadVillages)
       = [[''A'', ''B'']]
   \<and> map (\<lambda>c. length (villageIds c))
        (analyzeClusters tableDistance adviseDown fixedClock roadVillages) = [2]"
  using clusters_have_two_members [of tableDistance adviseDown fixedClock roadVillages]
  by (simp add: analyzeClusters_def roadVillages_def roadVillage_def tableDistance_def
        DISTANCE_THRESHOLD_def makeCluster_def Let_def)

text \<open>
  The members of every cluster are villages of the input that are not \<open>GREEN\<close>, and the
  severity of the cluster is computed from them.
\<close>

lemma clusters_from_members:
  "\<forall>c \<in> set (analyzeClusters gd advise nowMs villages).
     \<exists>members. villageIds c = map id_v members
       \<and> set members \<subseteq> {v \<in> set villages. status v \<noteq> GREEN}
       \<and> severity c = clusterSeverity members"
  unfolding analyzeClusters_def
proof (rule clusterLoop_invariant [where U = "{v \<in> set villages. status v \<noteq> GREEN}"])
  show "\<forall>c \<in> set []. \<exists>members. villageIds c = map id_v members
      \<and> set members \<subseteq> {v \<in> set villages. status v \<noteq> GREEN}
      \<and> severity c = clusterSeverity members"
    by simp
next
  fix i :: nat and cur :: "Village list"
  assume "set cur \<subseteq> {v \<in> set villages. status v \<noteq> GREEN}"
  then have "villageIds (makeCluster advise nowMs i cur) = map id_v cur
      \<and> set cur \<subseteq> {v \<in> set villages. status v \<noteq> GREEN}
      \<and> severity (makeCluster advise nowMs i cur) = clusterSeverity cur"
    by (simp add: makeCluster_def Let_def)
  then show "\<exists>members. villageIds (makeCluster advise nowMs i cur) = map id_v members
      \<and> set members \<subseteq> {v \<in> set villages. status v \<noteq> GREEN}
      \<and> severity (makeCluster advise nowMs i cur) = clusterSeverity members"
    by blast
next
  show "set (filter (\<lambda>v. status v \<noteq> GREEN) villages) \<subseteq> {v \<in> set villages. status v \<noteq> GREEN}"
    by auto
qed

lemma clusterSeverity_RED_iff:
  "clusterSeverity members = RED \<longleftrightarrow> (\<exists>v \<in> set members. status v = RED)"
  by (simp add: clusterSeverity_def list_ex_iff)

lemma clusterSeverity_cases: "clusterSeverity members \<noteq> RED \<Longrightarrow> clusterSeverity members = YELLOW"
  by (simp add: clusterSeverity_def split: if_splits)

text \<open>
  C6. Every cluster of the output is made of villages that are not \<open>GREEN\<close>; its
  severity is \<open>RED\<close> exactly when one of these members has status \<open>RED\<close>, and \<open>YELLOW\<close>
  otherwise. When the ids of the input are pairwise distinct, the members are the
  villages whose id the cluster lists.
\<close>

theorem cluster_severity_rule:
  "\<forall>c \<in> set (analyzeClusters gd advise nowMs villages).
     (\<exists>members. villageIds c = map id_v members
        \<and> set members \<subseteq> {v \<in> set villages. status v \<noteq> GREEN}
        \<and> (severity c = RED \<longleftrightarrow> (\<exists>v \<in> set members. status v = RED)))
     \<and> (severity c \<noteq> RED \<longrightarrow> severity c = YELLOW)
     \<and> (distinct (map id_v villages) \<longrightarrow>
          (severity c = RED \<longleftrightarrow>
             (\<exists>v \<in> set villages. id_v v \<in> set (villageIds c) \<and> status v = RED)))"
proof
  fix c
  assume "c \<in> set (analyzeClusters gd advise nowMs villages)"
  then obtain members where ids: "villageIds c = map id_v members"
    and sub: "set members \<subseteq> {v \<in> set villages. status v \<noteq> GREEN}"
    and sev: "severity c = clusterSeverity members"
    using clusters_from_members [of gd advise nowMs villages] by blast
  have red: "severity c = RED \<longleftrightarrow> (\<exists>v \<in> set members. status v = RED)"
    by (simp add: sev clusterSeverity_RED_iff)
  have yellow: "severity c \<noteq> RED \<longrightarrow> severity c = YELLOW"
    by (simp add: sev clusterSeverity_cases)
  have by_id: "severity c = RED \<longleftrightarrow>
      (\<exists>v \<in> set villages. id_v v \<in> set (villageIds c) \<and> status v = RED)"
    if d: "distinct (map id_v villages)"
  proof
    assume "severity c = RED"
    then obtain v where "v \<in> set members" "status v = RED"
      using red by blast
    then show "\<exists>v \<in> set villages. id_v v \<in> set (villageIds c) \<and> status v = RED"
      using sub ids by auto
  next
    assume "\<exists>v \<in> set villages. id_v v \<in> set (villageIds c) \<and> status v = RED"
    then obtain v where v: "v \<in> set villages" "id_v v \<in> set (villageIds c)" "status v = RED"
      by blast
    then obtain m where m: "m \<in> set members" "id_v m = id_v v"
      using ids by auto
    have "inj_on id_v (set villages)"
      using d by (simp add: distinct_map)
    moreover have "m \<in> set villages"
      using m(1) sub by auto
    ultimately have "m = v"
      using v(1) m(2) by (auto dest: inj_onD)
    then show "severity c = RED"
      using red m(1) v(3) by blast
  qed
  show "(\<exists>members. villageIds c = map id_v members
        \<and> set members \<subseteq> {v \<in> set villages. status v \<noteq> GREEN}
        \<and> (severity c = RED \<longleftrightarrow> (\<exists>v \<in> set members. status v = RED)))
     \<and> (severity c \<noteq> RED \<longrightarrow> severity c = YELLOW)
     \<and> (distinct (map id_v villages) \<longrightarrow>
          (severity c = RED \<longleftrightarrow>
             (\<exists>v \<in> set villages. id_v v \<in> set (villageIds c) \<and> status v = RED)))"
    using ids sub red yellow by_id by blast
qed

theorem cluster_severity_rule_witness:
  "distinct (map id_v roadVillages)
   \<and> map status roadVillages = [YELLOW, RED, YELLOW]
   \<and> map (\<lambda>c. (villageIds c, severity c))
        (analyzeClusters tableDistance adviseDown fixedClock roadVillages)
       = [([''A'', ''B''], RED)]
   \<and> map (\<lambda>c. (villageIds c, severity c))
        (analyzeClusters tableDistance adviseDown fixedClock
           [roadVillage ''A'' 0 YELLOW, roadVillage ''B'' 10 YELLOW])
       = [([''A'', ''B''], YELLOW)]"
  using cluster_severity_rule [of tableDistance adviseDown fixedClock roadVillages]
    cluster_severity_rule [of tableDistance adviseDown fixedClock
      "[roadVillage ''A'' 0 YELLOW, roadVillage ''B'' 10 YELLOW]"]
  by (simp add: analyzeClusters_def roadVillages_def roadVillage_def tableDistance_def
        DISTANCE_THRESHOLD_def makeCluster_def clusterSeverity_def Let_def)

text \<open>
  C4. Three villages \<open>A\<close>, \<open>B\<close>, \<open>C\<close>, none of them \<open>GREEN\<close>, with three different ids,
  in this order; \<open>A\<close> and \<open>B\<close> are 10 km apart, \<open>B\<close> and \<open>C\<close> 10 km, \<open>A\<close> and \<open>C\<close>
  25 km. The detector returns one cluster, of \<open>A\<close> and \<open>B\<close>, and \<open>C\<close> is in no cluster:
  villages are compared with the anchor \<open>A\<close> only. The statement is about every
  distance function with these three values; since 10 + 10 < 25, they come from a table
  of distances and not from three points on the globe, whose great-circle distances
  obey the triangle inequality. The distance between \<open>B\<close> and \<open>C\<close> is never looked at.
\<close>

theorem cluster_star_grouping:
  assumes "status A \<noteq> GREEN" "status B \<noteq> GREEN" "status C \<noteq> GREEN"
    and "distinct [id_v A, id_v B, id_v C]"
    and "gd (coordinates A) (coordinates B) = Fin 10000"
    and "gd (coordinates B) (coordinates C) = Fin 10000"
    and "gd (coordinates A) (coordinates C) = Fin 25000"
  shows "map villageIds (analyzeClusters gd advise nowMs [A, B, C]) = [[id_v A, id_v B]]
     \<and> id_v C \<notin> \<Union> (set (map (\<lambda>c. set (villageIds c)) (analyzeClusters gd advise nowMs [A, B, C])))"
  using assms
  by (auto simp: analyzeClusters_def DISTANCE_THRESHOLD_def makeCluster_def Let_def)

theorem cluster_star_grouping_witness:
  "status (roadVillage ''A'' 0 YELLOW) \<noteq> GREEN
   \<and> status (roadVillage ''B'' 10 RED) \<noteq> GREEN
   \<and> status (roadVillage ''C'' 20 YELLOW) \<noteq> GREEN
   \<and> distinct [id_v (roadVillage ''A'' 0 YELLOW), id_v (roadVillage ''B'' 10 RED),
        id_v (roadVillage ''C'' 20 YELLOW)]
   \<and> tableDistance (coordinates (roadVillage ''A'' 0 YELLOW))
        (coordinates (roadVillage ''B'' 10 RED)) = Fin 10000
   \<and> tableDistance (coordinates (roadVillage ''B'' 10 RED))
        (coordinates (roadVillage ''C'' 20 YELLOW)) = Fin 10000
   \<and> tableDistance (coordinates (roadVillage ''A'' 0 YELLOW))
        (coordinates (roadVillage ''C'' 20 YELLOW)) = Fin 25000
   \<and> map villageIds (analyzeClusters tableDistance adviseDown fixedClock
        [roadVillage ''A'' 0 YELLOW, roadVillage ''B'' 10 RED, roadVillage ''C'' 20 YELLOW])
       = [[''A'', ''B'']]"
proof -
  let ?A = "roadVillage ''A'' 0 YELLOW"
  let ?B = "roadVillage ''B'' 10 RED"
  let ?C = "roadVillage ''C'' 20 YELLOW"
  have st: "status ?A \<noteq> GREEN" "status ?B \<noteq> GREEN" "status ?C \<noteq> GREEN"
    by (simp_all add: roadVillage_def)
  have ids: "distinct [id_v ?A, id_v ?B, id_v ?C]"
    by (simp add: roadVillage_def)
  have ab: "tableDistance (coordinates ?A) (coordinates ?B) = Fin 10000"
    and bc: "tableDistance (coordinates ?B) (coordinates ?C) = Fin 10000"
    and ac: "tableDistance (coordinates ?A) (coordinates ?C) = Fin 25000"
    by (simp_all add: roadVillage_def tableDistance_def)
  have nm: "id_v ?A = ''A''" "id_v ?B = ''B''"
    by (simp_all add: roadVillage_def)
  show ?thesis
    using st ids ab bc ac
      cluster_star_grouping [OF st ids ab bc ac, of adviseDown fixedClock]
    by (simp add: nm)
qed

end
